theory Spec2Isabelle
  imports Complex_Main "HOL-Library.AList" "HOL-Library.Multiset" "HOL-Library.Sublist"
begin

section \<open>JavaScript values as the program handles them\<close>

text \<open>
  The program is a TypeScript/React application. Data that the source handles with a
  declared type (\<open>StockAnalysisInput\<close>, the \<open>history\<close> argument of
  \<open>runConsistencyCheck\<close>) is modelled by records; data that the source handles as
  \<open>any\<close> (whatever \<open>JSON.parse\<close> returned) is modelled by the JSON value type below.
  A JavaScript string is a list of characters, one \<^typ>\<open>char\<close> per code unit, so that
  \<open>.length\<close> is \<^const>\<open>length\<close>. Finite numbers are \<^typ>\<open>real\<close>.
\<close>

datatype json =
    JNull
  | JBool bool
  | JNum real
  | JStr string
  | JArr "json list"
  | JObj "(string \<times> json) list"

text \<open>
  An object is its list of own properties in insertion order; the lists produced by
  \<open>JSON.parse\<close> have distinct keys. (JavaScript enumerates integer-like keys first;
  the order of properties matters to \<open>JSON.stringify\<close> only, which stays a
  parameter.) A property read yields \<open>None\<close> for \<open>undefined\<close>.
\<close>

type_synonym obj = "(string \<times> json) list"

datatype error = TransportError | SyntaxError | TypeError

text \<open>Decimal rendering of a non-negative integer, as template literals render it.\<close>

fun decimal :: "nat \<Rightarrow> string" where
  "decimal n =
     (if n < 10 then [''0123456789'' ! n]
      else decimal (n div 10) @ [''0123456789'' ! (n mod 10)])"

declare decimal.simps [simp del]

text \<open>
  \<open>{...c}\<close>: the own enumerable properties of \<open>c\<close>. \<open>null\<close>, booleans and
  numbers have none; a string and an array have their index properties.
\<close>

definition spread :: "json \<Rightarrow> obj" where
  "spread c =
     (case c of
        JObj ps \<Rightarrow> ps
      | JArr xs \<Rightarrow> zip (map decimal [0..<length xs]) xs
      | JStr s \<Rightarrow> zip (map decimal [0..<length s]) (map (\<lambda>ch. JStr [ch]) s)
      | _ \<Rightarrow> [])"

text \<open>
  \<open>c.k\<close> for a property name \<open>k\<close> that is neither an index, \<open>length\<close> nor a
  member of a built-in prototype (the source reads \<open>id\<close>, \<open>ticker\<close> and
  \<open>timestamp\<close>): reading a property of \<open>null\<close> throws a TypeError, a primitive or
  an array has no such property.
\<close>

definition getProp :: "json \<Rightarrow> string \<Rightarrow> error + json option" where
  "getProp c k =
     (case c of
        JNull \<Rightarrow> Inl TypeError
      | JObj ps \<Rightarrow> Inr (map_of ps k)
      | _ \<Rightarrow> Inr None)"

text \<open>Truthiness of a value that may be \<open>undefined\<close>.\<close>

definition truthy :: "json option \<Rightarrow> bool" where
  "truthy v =
     (case v of
        None \<Rightarrow> False
      | Some JNull \<Rightarrow> False
      | Some (JBool b) \<Rightarrow> b
      | Some (JNum n) \<Rightarrow> n \<noteq> 0
      | Some (JStr s) \<Rightarrow> s \<noteq> []
      | Some (JArr _) \<Rightarrow> True
      | Some (JObj _) \<Rightarrow> True)"

text \<open>\<open>a || b\<close> on values that may be \<open>undefined\<close>.\<close>

definition js_or :: "json option \<Rightarrow> json option \<Rightarrow> json option" where
  "js_or a b = (if truthy a then a else b)"

text \<open>\<open>v !== s\<close> where \<open>s\<close> is a string: equal only to that very string.\<close>

definition strict_neq_str :: "json option \<Rightarrow> string \<Rightarrow> bool" where
  "strict_neq_str v s = (v \<noteq> Some (JStr s))"

text \<open>
  A JavaScript number that may be \<open>NaN\<close> or infinite: the value of \<open>parseFloat\<close>,
  and what a subtraction reads from a property that may be missing (\<open>undefined\<close>
  reads as \<open>NaN\<close>). Comparisons with \<open>NaN\<close> are false. Of a difference of two
  finite numbers only the sign is read, which rounding and overflow leave as it is.
\<close>

datatype jsnumber = NaN | NegInfinity | Finite real | PosInfinity

fun js_gt :: "jsnumber \<Rightarrow> real \<Rightarrow> bool" where
  "js_gt NaN r = False"
| "js_gt NegInfinity r = False"
| "js_gt (Finite x) r = (x > r)"
| "js_gt PosInfinity r = True"

fun js_lt :: "jsnumber \<Rightarrow> real \<Rightarrow> bool" where
  "js_lt NaN r = False"
| "js_lt NegInfinity r = True"
| "js_lt (Finite x) r = (x < r)"
| "js_lt PosInfinity r = False"

fun js_sub :: "jsnumber \<Rightarrow> jsnumber \<Rightarrow> jsnumber" where
  "js_sub (Finite a) (Finite b) = Finite (a - b)"
| "js_sub NaN y = NaN"
| "js_sub x NaN = NaN"
| "js_sub PosInfinity PosInfinity = NaN"
| "js_sub NegInfinity NegInfinity = NaN"
| "js_sub PosInfinity y = PosInfinity"
| "js_sub NegInfinity y = NegInfinity"
| "js_sub (Finite a) PosInfinity = NegInfinity"
| "js_sub (Finite a) NegInfinity = PosInfinity"

section \<open>The case archive (App component)\<close>

text \<open>
  The archive state of \<open>App\<close>: \<open>vaultCases\<close> (React state), its mirror in
  \<open>localStorage\<close> under \<open>tradeLogic_cases\<close> (the list whose serialisation was
  written, \<open>None\<close> before the first write), the messages shown with \<open>alert\<close>, and
  the number of identifiers drawn from \<open>crypto.randomUUID\<close> and kept so far. Every
  entry of the archive is built by an object literal, hence an object. The identifiers
  are the values \<open>uuids 0, uuids 1, \<dots>\<close> of a supply passed to each operation;
  \<open>now\<close> is the value \<open>Date.now()\<close> returns.

  \<open>localStorage.setItem\<close> throws when the storage refuses the write (its quota is
  exceeded, or it is disabled). \<open>setItem cases\<close> tells whether the write of the
  serialised list \<open>cases\<close> succeeds. In each operation the write comes after
  \<open>setVaultCases\<close>, whose update stays when the write throws.
\<close>

record app =
  vaultCases :: "obj list"
  persisted :: "obj list option"
  alerts :: "string list"
  drawn :: nat

text \<open>\<open>item.id || item.ticker\<close> (CaseVault): the identity key of an archive entry.\<close>

definition identity_key :: "obj \<Rightarrow> json option" where
  "identity_key item = js_or (map_of item ''id'') (map_of item ''ticker'')"

text \<open>
  \<open>saveToVault\<close>. When the write throws, the exception leaves the handler and the
  \<open>alert\<close> is not reached.
\<close>

definition saveToVault ::
  "(obj list \<Rightarrow> bool) \<Rightarrow> (nat \<Rightarrow> string) \<Rightarrow> real \<Rightarrow> obj \<Rightarrow> app \<Rightarrow> app" where
  "saveToVault setItem uuids now result st =
     (let uniqueResult =
            AList.update ''timestamp'' (JNum now)
              (AList.update ''id'' (JStr (uuids (drawn st))) result);
          newCases = uniqueResult # vaultCases st
      in if setItem newCases then
           st\<lparr>vaultCases := newCases,
              persisted := Some newCases,
              alerts := alerts st @ [''Snapshot archived to Vault successfully.''],
              drawn := Suc (drawn st)\<rparr>
         else st\<lparr>vaultCases := newCases, drawn := Suc (drawn st)\<rparr>)"

text \<open>
  \<open>removeFromVault\<close>; its argument is a string, as the signature declares. When the
  write throws, the exception leaves the handler.
\<close>

definition removeFromVault :: "(obj list \<Rightarrow> bool) \<Rightarrow> string \<Rightarrow> app \<Rightarrow> app" where
  "removeFromVault setItem ident st =
     (let newCases = filter (\<lambda>c. strict_neq_str (map_of c ''id'') ident) (vaultCases st)
      in if setItem newCases then st\<lparr>vaultCases := newCases, persisted := Some newCases\<rparr>
         else st\<lparr>vaultCases := newCases\<rparr>)"

text \<open>
  \<open>json.map((c: any) => ({ ...c, id: c.id || crypto.randomUUID() }))\<close> of
  \<open>handleImportVault\<close>: one entry, then the whole array from left to right. The second
  component is the number of identifiers drawn. An exception leaves the \<open>map\<close>.
\<close>

definition with_id :: "(nat \<Rightarrow> string) \<Rightarrow> nat \<Rightarrow> json \<Rightarrow> error + (obj \<times> nat)" where
  "with_id uuids n c =
     (case getProp c ''id'' of
        Inl e \<Rightarrow> Inl e
      | Inr v \<Rightarrow>
          (if truthy v then Inr (AList.update ''id'' (the v) (spread c), n)
           else Inr (AList.update ''id'' (JStr (uuids n)) (spread c), Suc n)))"

fun import_entries :: "(nat \<Rightarrow> string) \<Rightarrow> nat \<Rightarrow> json list \<Rightarrow> error + (obj list \<times> nat)" where
  "import_entries uuids n [] = Inr ([], n)"
| "import_entries uuids n (c # cs) =
     (case with_id uuids n c of
        Inl e \<Rightarrow> Inl e
      | Inr (c', n') \<Rightarrow>
          (case import_entries uuids n' cs of
             Inl e \<Rightarrow> Inl e
           | Inr (cs', n'') \<Rightarrow> Inr (c' # cs', n'')))"

text \<open>
  \<open>reader.onload\<close> of \<open>handleImportVault\<close>. \<open>JSON_parse\<close> stands for the
  built-in \<open>JSON.parse\<close>: \<open>None\<close> when it throws a SyntaxError. The \<open>catch\<close>
  block reports every exception of the \<open>try\<close> block with
  \<open>alert("Invalid JSON file.")\<close>: that of \<open>JSON.parse\<close>, that of the \<open>map\<close>,
  and that of \<open>localStorage.setItem\<close>, which comes after \<open>setVaultCases(merged)\<close>.
  A parsed value that is not an array falls through the \<open>if\<close> with no effect.
\<close>

definition import_onload ::
  "(obj list \<Rightarrow> bool) \<Rightarrow> (string \<Rightarrow> json option) \<Rightarrow> (nat \<Rightarrow> string) \<Rightarrow> string \<Rightarrow> app \<Rightarrow> app" where
  "import_onload setItem JSON_parse uuids text st =
     (case JSON_parse text of
        None \<Rightarrow> st\<lparr>alerts := alerts st @ [''Invalid JSON file.'']\<rparr>
      | Some (JArr cs) \<Rightarrow>
          (case import_entries uuids (drawn st) cs of
             Inl e \<Rightarrow> st\<lparr>alerts := alerts st @ [''Invalid JSON file.'']\<rparr>
           | Inr (new, n) \<Rightarrow>
               (let merged = vaultCases st @ new
                in if setItem merged then
                     st\<lparr>vaultCases := merged,
                        persisted := Some merged,
                        alerts := alerts st @
                          [''Successfully imported '' @ decimal (length cs) @ '' cases.''],
                        drawn := n\<rparr>
                   else
                     st\<lparr>vaultCases := merged,
                        alerts := alerts st @ [''Invalid JSON file.''],
                        drawn := n\<rparr>))
      | Some _ \<Rightarrow> st)"

text \<open>
  \<open>handleImportVault\<close>: nothing happens when no file was chosen
  (\<open>if (!file) return\<close>); otherwise the text of the file is read and \<open>onload\<close>
  runs on it.
\<close>

definition handleImportVault ::
  "(obj list \<Rightarrow> bool) \<Rightarrow> (string \<Rightarrow> json option) \<Rightarrow> (nat \<Rightarrow> string) \<Rightarrow> string option \<Rightarrow>
   app \<Rightarrow> app" where
  "handleImportVault setItem JSON_parse uuids file st =
     (case file of
        None \<Rightarrow> st
      | Some text \<Rightarrow> import_onload setItem JSON_parse uuids text st)"

section \<open>The analysis input (types.ts) and the input form (InputForm component)\<close>

datatype CapitalTier = MICRO | RETAIL | HIGH_NET | INSTITUTIONAL

datatype RiskProfile = CONSERVATIVE | BALANCED | AGGRESSIVE

record Fundamentals =
  roe :: string
  der :: string
  pbv :: string
  per :: string
  npm :: string
  growth :: string
  cfo :: string
  fcf :: string

text \<open>
  \<open>brokerSummaryVal\<close> is the position of a range slider from 0 to 100, read with
  \<open>parseInt\<close>: a natural number.
\<close>

record Bandarmology =
  orderBookBid :: string
  orderBookAsk :: string
  tradeBookBid :: string
  tradeBookAsk :: string
  brokerSummaryVal :: nat
  topBrokers :: string
  duration :: string
  bandarAvgPrice :: string

record StockAnalysisInput =
  ticker :: string
  price :: string
  capital :: string
  capitalTier :: CapitalTier
  riskProfile :: RiskProfile
  fundamentals :: Fundamentals
  bandarmology :: Bandarmology
  rawIntelligenceData :: string

text \<open>
  The capital validation effect of \<open>InputForm\<close>: the value it gives to
  \<open>capitalWarning\<close> (\<open>None\<close> for \<open>null\<close>). \<open>parseFloat\<close> stands for the
  built-in of that name.
\<close>

definition capitalWarning :: "(string \<Rightarrow> jsnumber) \<Rightarrow> StockAnalysisInput \<Rightarrow> string option" where
  "capitalWarning parseFloat formData =
     (if capital formData = [] then None
      else
        (let amount = parseFloat (capital formData);
             tier = capitalTier formData
         in if tier = MICRO \<and> js_gt amount 150000000 then
              Some ''CRITICAL: Nominal modal terlalu besar untuk Tier MICRO.''
            else if tier = RETAIL \<and> js_gt amount 600000000 then
              Some ''WARNING: Modal Anda mendekati High Net Worth. Pertimbangkan upgrade Tier.''
            else if tier = INSTITUTIONAL \<and> js_lt amount 1000000000 then
              Some ''INVALID: Tier Institutional butuh modal minimal 1 Miliar.''
            else None))"

text \<open>\<open>Object.values(formData.fundamentals)\<close>.\<close>

definition fundamentals_values :: "Fundamentals \<Rightarrow> string list" where
  "fundamentals_values f = [roe f, der f, pbv f, per f, npm f, growth f, cfo f, fcf f]"

text \<open>
  \<open>isStepValid\<close>, as the truth value of what it returns (a non-empty string is
  truthy).
\<close>

definition isStepValid :: "StockAnalysisInput \<Rightarrow> nat \<Rightarrow> bool" where
  "isStepValid formData s =
     (if s = 1 then ticker formData \<noteq> [] \<and> price formData \<noteq> [] \<and> capital formData \<noteq> []
      else if s = 2 then list_all (\<lambda>v. v \<noteq> []) (fundamentals_values (fundamentals formData))
      else if s = 3 then topBrokers (bandarmology formData) \<noteq> [] \<and>
                         bandarAvgPrice (bandarmology formData) \<noteq> []
      else if s = 4 then length (rawIntelligenceData formData) > 50
      else False)"

text \<open>
  The \<open>onSubmit\<close> handler of the form: the data handed to the \<open>onSubmit\<close> callback,
  if any.
\<close>

definition form_onSubmit :: "StockAnalysisInput \<Rightarrow> StockAnalysisInput option" where
  "form_onSubmit formData =
     (if isStepValid formData 1 \<and> isStepValid formData 2 \<and>
         isStepValid formData 3 \<and> isStepValid formData 4
      then Some formData else None)"

section \<open>The analysis gateway (geminiService.ts)\<close>

text \<open>
  The schemas that are sent to the inference service, as the data they are:
  \<open>Type.STRING\<close> with or without \<open>enum\<close>, \<open>Type.NUMBER\<close>, \<open>Type.BOOLEAN\<close>,
  and \<open>Type.OBJECT\<close> with its \<open>properties\<close> and \<open>required\<close> list.
\<close>

datatype schema =
    SString
  | SEnum "string list"
  | SNumber
  | SBoolean
  | SObject "(string \<times> schema) list" "string list"

definition tradePlanSchema :: schema where
  "tradePlanSchema =
     SObject
       [(''verdict'', SString), (''entry'', SString), (''tp'', SString), (''sl'', SString),
        (''reasoning'', SString),
        (''status'', SEnum [''RECOMMENDED'', ''POSSIBLE'', ''FORBIDDEN''])]
       []"

definition responseSchema :: schema where
  "responseSchema =
     SObject
       [(''ticker'', SString),
        (''priceInfo'',
           SObject [(''current'', SString), (''bandarAvg'', SString),
                    (''diffPercent'', SNumber), (''status'', SString)] []),
        (''marketCapAnalysis'',
           SObject [(''category'', SEnum [''Small Cap'', ''Mid Cap'', ''Big Cap'', ''UNKNOWN'']),
                    (''behavior'', SString)] []),
        (''supplyDemand'',
           SObject [(''bidStrength'', SNumber), (''offerStrength'', SNumber),
                    (''verdict'', SString)] []),
        (''prediction'',
           SObject [(''direction'', SEnum [''UP'', ''DOWN'', ''CONSOLIDATE'', ''UNKNOWN'']),
                    (''probability'', SNumber), (''reasoning'', SString)] []),
        (''stressTest'',
           SObject [(''passed'', SBoolean), (''score'', SNumber), (''details'', SString)] []),
        (''brokerAnalysis'',
           SObject [(''classification'', SString), (''insight'', SString)] []),
        (''summary'', SString),
        (''bearCase'', SString),
        (''strategy'',
           SObject [(''bestTimeframe'', SEnum [''SHORT'', ''MEDIUM'', ''LONG'']),
                    (''shortTerm'', tradePlanSchema),
                    (''mediumTerm'', tradePlanSchema),
                    (''longTerm'', tradePlanSchema)] []),
        (''fullAnalysis'', SString)]
       [''ticker'', ''priceInfo'', ''marketCapAnalysis'', ''supplyDemand'', ''prediction'',
        ''stressTest'', ''brokerAnalysis'', ''summary'', ''bearCase'', ''strategy'',
        ''fullAnalysis'']"

definition consistencySchema :: schema where
  "consistencySchema =
     SObject
       [(''ticker'', SString),
        (''dataPoints'', SNumber),
        (''trendVerdict'', SEnum [''IMPROVING'', ''STABLE'', ''DEGRADING'', ''VOLATILE'']),
        (''consistencyScore'', SNumber),
        (''analysis'', SString),
        (''actionItem'', SString)]
       []"

text \<open>
  The argument of \<open>ai.models.generateContent\<close>. The text of the constant
  \<open>SYSTEM_INSTRUCTION\<close> is not reproduced: the request says whether it is attached.
\<close>

datatype instruction = SYSTEM_INSTRUCTION

record request =
  model :: string
  contents :: string
  systemInstruction :: "instruction option"
  responseMimeType :: string
  requestSchema :: schema
  temperature :: real
  topK :: "nat option"
  topP :: "real option"
  seed :: nat

text \<open>How a template literal renders the two enumerations (their values are strings).\<close>

fun CapitalTier_string :: "CapitalTier \<Rightarrow> string" where
  "CapitalTier_string MICRO = ''MICRO''"
| "CapitalTier_string RETAIL = ''RETAIL''"
| "CapitalTier_string HIGH_NET = ''HIGH_NET''"
| "CapitalTier_string INSTITUTIONAL = ''INSTITUTIONAL''"

fun RiskProfile_string :: "RiskProfile \<Rightarrow> string" where
  "RiskProfile_string CONSERVATIVE = ''CONSERVATIVE''"
| "RiskProfile_string BALANCED = ''BALANCED''"
| "RiskProfile_string AGGRESSIVE = ''AGGRESSIVE''"

definition riskInstruction :: "StockAnalysisInput \<Rightarrow> string" where
  "riskInstruction input =
     (if riskProfile input = CONSERVATIVE then
        ''RISK PROFILE: CONSERVATIVE (HAWK). Penalize high PBV/PER severely if Growth is < 15%. Require positive CFO. Be skeptical of unproven breakouts.''
      else if riskProfile input = AGGRESSIVE then
        ''RISK PROFILE: AGGRESSIVE (BULL). Tolerate high Valuation if Growth > 20% or Momentum is very strong. Focus on Future Value over current metrics.''
      else ''RISK PROFILE: BALANCED. Standard institutional weighting.'')"

text \<open>The template literal \<open>prompt\<close> of \<open>analyzeStock\<close>, line by line.\<close>

definition prompt :: "StockAnalysisInput \<Rightarrow> string" where
  "prompt input =
     ''\<newline>    INSTITUTIONAL AUDIT REQUEST: '' @ ticker input @ '' @ '' @ price input @
     ''\<newline>    CLIENT MANDATE: '' @ RiskProfile_string (riskProfile input) @
     ''\<newline>    CLIENT CAPITAL: '' @ capital input @ '' IDR (Tier selected: '' @
        CapitalTier_string (capitalTier input) @ '')'' @
     ''\<newline>    '' @
     ''\<newline>    [LOGIC INJECTION]'' @
     ''\<newline>    '' @ riskInstruction input @
     ''\<newline>'' @
     ''\<newline>    [FUNDAMENTAL DATA - AUDITED]'' @
     ''\<newline>    ROE: '' @ roe (fundamentals input) @ ''% | DER: '' @ der (fundamentals input) @
        ''x | PBV: '' @ pbv (fundamentals input) @ ''x'' @
     ''\<newline>    PER: '' @ per (fundamentals input) @ ''x | CFO (Operating Cash): '' @
        cfo (fundamentals input) @ '' | FCF (Free Cash): '' @ fcf (fundamentals input) @
     ''\<newline>    '' @
     ''\<newline>    [MARKET STRUCTURE DATA]'' @
     ''\<newline>    Bandar Score: '' @ decimal (brokerSummaryVal (bandarmology input)) @
        '' | Top Actors: '' @ topBrokers (bandarmology input) @
        '' | Avg Cost: '' @ bandarAvgPrice (bandarmology input) @
     ''\<newline>    Bid Depth: '' @ orderBookBid (bandarmology input) @ '' '' @
     ''\<newline>    Offer Depth: '' @ orderBookAsk (bandarmology input) @
     ''\<newline>    Haka (Aggressive Buy): '' @ tradeBookAsk (bandarmology input) @ '' '' @
     ''\<newline>    Haki (Aggressive Sell): '' @ tradeBookBid (bandarmology input) @
     ''\<newline>    '' @
     ''\<newline>    [INTELLIGENCE REPORT]'' @
     ''\<newline>    '' @ rawIntelligenceData input @
     ''\<newline>    ''"

definition analysis_request :: "StockAnalysisInput \<Rightarrow> request" where
  "analysis_request input =
     \<lparr>model = ''gemini-3-flash-preview'',
      contents = prompt input,
      systemInstruction = Some SYSTEM_INSTRUCTION,
      responseMimeType = ''application/json'',
      requestSchema = responseSchema,
      temperature = 0,
      topK = Some 1,
      topP = Some (1 / 10),
      seed = 42069\<rparr>"

text \<open>
  \<open>analyzeStock\<close>. \<open>generateContent\<close> stands for the inference service: it fails
  (the promise rejects) or yields the text of the response; a response without text is
  a text that \<open>JSON.parse\<close> rejects. \<open>uuid\<close> and \<open>now\<close> are the values that
  \<open>crypto.randomUUID()\<close> and \<open>Date.now()\<close> return. The result is the list of
  requests issued, and the error thrown or the value returned. The \<open>catch\<close> block
  logs the error and throws it again.
\<close>

definition analyzeStock ::
  "(request \<Rightarrow> error + string) \<Rightarrow> (string \<Rightarrow> json option) \<Rightarrow> string \<Rightarrow> real \<Rightarrow>
   StockAnalysisInput \<Rightarrow> request list \<times> (error + obj)" where
  "analyzeStock generateContent JSON_parse uuid now input =
     (let req = analysis_request input
      in case generateContent req of
           Inl e \<Rightarrow> ([req], Inl e)
         | Inr text \<Rightarrow>
             (case JSON_parse text of
                None \<Rightarrow> ([req], Inl SyntaxError)
              | Some data \<Rightarrow>
                  ([req],
                   Inr (AList.update ''sources'' (JArr [])
                         (AList.update ''timestamp'' (JNum now)
                           (AList.update ''id'' (JStr uuid) (spread data)))))))"

section \<open>The consistency engine (geminiService.ts)\<close>

text \<open>
  \<open>runConsistencyCheck\<close> takes a list of \<open>AnalysisResult\<close>. Of an entry it reads
  two properties: \<open>timestamp\<close>, in a subtraction, and \<open>ticker\<close>, in a template
  literal. The record holds what these two reads yield: the number that the subtraction
  sees (\<open>NaN\<close> for an entry without a timestamp, such as an imported one, since import
  adds an id only) and the text that the template renders. The fields the function
  never reads are the extension of the record.
\<close>

record AnalysisResult =
  id_of :: string
  timestamp :: jsnumber
  ticker_of :: string

text \<open>
  \<open>Array.prototype.sort(comparefn)\<close>: the built-in sort is stable and reads a
  \<open>NaN\<close> result of the comparator as \<open>+0\<close>, so \<open>a\<close> goes after \<open>b\<close> only when
  \<open>comparefn(a, b) > 0\<close>, and elements that compare equal keep their order. It is
  modelled by stable insertion. (For a comparator that is not consistent the language
  leaves the order to the implementation; the model inserts stably then, too.)
\<close>

fun js_insert :: "('a \<Rightarrow> 'a \<Rightarrow> jsnumber) \<Rightarrow> 'a \<Rightarrow> 'a list \<Rightarrow> 'a list" where
  "js_insert comparefn x [] = [x]"
| "js_insert comparefn x (y # ys) =
     (if js_gt (comparefn x y) 0 then y # js_insert comparefn x ys else x # y # ys)"

definition js_sort :: "('a \<Rightarrow> 'a \<Rightarrow> jsnumber) \<Rightarrow> 'a list \<Rightarrow> 'a list" where
  "js_sort comparefn xs = foldr (js_insert comparefn) xs []"

text \<open>\<open>history.sort((a, b) => a.timestamp - b.timestamp)\<close>.\<close>

definition sorted_history :: "'a AnalysisResult_scheme list \<Rightarrow> 'a AnalysisResult_scheme list" where
  "sorted_history history = js_sort (\<lambda>a b. js_sub (timestamp a) (timestamp b)) history"

text \<open>
  The prompt of the consistency check, given the first entry and the sorted list;
  \<open>JSON_stringify\<close> stands for the built-in \<open>JSON.stringify\<close>.
\<close>

definition consistency_prompt ::
  "('a AnalysisResult_scheme list \<Rightarrow> string) \<Rightarrow> 'a AnalysisResult_scheme \<Rightarrow>
   'a AnalysisResult_scheme list \<Rightarrow> string" where
  "consistency_prompt JSON_stringify first sorted_h =
     ''Analisa tren konsistensi untuk '' @ ticker_of first @ ''. Data: '' @
     JSON_stringify sorted_h @
     ''. Gunakan bahasa profesional dan berikan outlook trend jangka panjang.''"

definition consistency_request :: "string \<Rightarrow> request" where
  "consistency_request p =
     \<lparr>model = ''gemini-3-flash-preview'',
      contents = p,
      systemInstruction = None,
      responseMimeType = ''application/json'',
      requestSchema = consistencySchema,
      temperature = 0,
      topK = None,
      topP = None,
      seed = 42069\<rparr>"

text \<open>
  \<open>runConsistencyCheck\<close>. \<open>sorted[0]\<close> of an empty array is \<open>undefined\<close>, and
  reading its \<open>ticker\<close> throws a TypeError while the prompt is built, before the
  request. The result is the list of requests issued, and the error thrown or the
  value returned.
\<close>

definition runConsistencyCheck ::
  "(request \<Rightarrow> error + string) \<Rightarrow> (string \<Rightarrow> json option) \<Rightarrow>
   ('a AnalysisResult_scheme list \<Rightarrow> string) \<Rightarrow> 'a AnalysisResult_scheme list \<Rightarrow>
   request list \<times> (error + json)" where
  "runConsistencyCheck generateContent JSON_parse JSON_stringify history =
     (let sorted_h = sorted_history history
      in case sorted_h of
           [] \<Rightarrow> ([], Inl TypeError)
         | first # _ \<Rightarrow>
             (let req = consistency_request (consistency_prompt JSON_stringify first sorted_h)
              in case generateContent req of
                   Inl e \<Rightarrow> ([req], Inl e)
                 | Inr text \<Rightarrow>
                     (case JSON_parse text of
                        None \<Rightarrow> ([req], Inl SyntaxError)
                      | Some r \<Rightarrow> ([req], Inr r))))"

section \<open>What the schema contract asks of a payload\<close>

text \<open>
  The claims about validation speak of a payload that misses a required key or carries
  a value outside an enumeration. Both notions are read off the schema value that the
  source declares: the \<open>required\<close> list of an object schema, and the \<open>enum\<close> list
  found by following a path of property names.
\<close>

definition required_keys :: "schema \<Rightarrow> string list" where
  "required_keys s = (case s of SObject props req \<Rightarrow> req | _ \<Rightarrow> [])"

definition missing_required_key :: "schema \<Rightarrow> json \<Rightarrow> bool" where
  "missing_required_key s data =
     (case data of
        JObj ps \<Rightarrow> list_ex (\<lambda>k. map_of ps k = None) (required_keys s)
      | _ \<Rightarrow> required_keys s \<noteq> [])"

fun schema_at :: "schema \<Rightarrow> string list \<Rightarrow> schema option" where
  "schema_at s [] = Some s"
| "schema_at (SObject props req) (k # ks) =
     (case map_of props k of None \<Rightarrow> None | Some s \<Rightarrow> schema_at s ks)"
| "schema_at s (k # ks) = None"

fun value_at :: "json \<Rightarrow> string list \<Rightarrow> json option" where
  "value_at v [] = Some v"
| "value_at (JObj ps) (k # ks) =
     (case map_of ps k of None \<Rightarrow> None | Some v \<Rightarrow> value_at v ks)"
| "value_at v (k # ks) = None"

definition outside_enum :: "schema \<Rightarrow> json \<Rightarrow> string list \<Rightarrow> bool" where
  "outside_enum s data path =
     (case schema_at s path of
        Some (SEnum allowed) \<Rightarrow>
          (case value_at data path of Some (JStr x) \<Rightarrow> x \<notin> set allowed | _ \<Rightarrow> False)
      | _ \<Rightarrow> False)"

section \<open>Notions used to state the properties\<close>

text \<open>
  An archive entry has an id when \<open>item.id\<close> is truthy, which is what
  \<open>item.id || \<dots>\<close> tests. For a parsed value \<open>c\<close> other than \<open>null\<close>,
  \<open>own_id c\<close> is what \<open>c.id\<close> evaluates to. An imported entry either keeps the id
  it carried or gets one of the identifiers generated from position \<open>n\<close> of the supply
  on. A parsed value is shaped like a result when it is an object with every required
  key of \<open>responseSchema\<close>. \<open>js_le\<close> is the ascending order of numbers;
  \<open>NaN\<close> is not in order with anything. A list of results is ascending when
  the timestamps of any two of its entries are in that order.
\<close>

definition has_id :: "obj \<Rightarrow> bool" where
  "has_id c = truthy (map_of c ''id'')"

definition own_id :: "json \<Rightarrow> json option" where
  "own_id c = (case c of JObj ps \<Rightarrow> map_of ps ''id'' | _ \<Rightarrow> None)"

definition id_kept_or_generated :: "(nat \<Rightarrow> string) \<Rightarrow> nat \<Rightarrow> json \<Rightarrow> obj \<Rightarrow> bool" where
  "id_kept_or_generated uuids n c e =
     (if truthy (own_id c) then map_of e ''id'' = own_id c
      else (\<exists>j\<ge>n. map_of e ''id'' = Some (JStr (uuids j))))"





section \<open>Concrete inputs used by the witnesses and counterexamples\<close>

text \<open>
  Stand-ins for the environment: an inference service that answers with a given text,
  one that cannot be reached, a \<open>JSON.parse\<close> that returns a given value, a supply of
  identifiers, a serialiser that writes the tickers one after the other and one that
  writes the ids, a storage that takes every write and one that is full.
\<close>

definition answering :: "string \<Rightarrow> request \<Rightarrow> error + string" where
  "answering text req = Inr text"

definition unreachable_service :: "request \<Rightarrow> error + string" where
  "unreachable_service req = Inl TransportError"

definition parses_to :: "json \<Rightarrow> string \<Rightarrow> json option" where
  "parses_to v text = Some v"

definition example_uuids :: "nat \<Rightarrow> string" where
  "example_uuids n = ''uuid-'' @ decimal n"

definition tickers_of :: "AnalysisResult list \<Rightarrow> string" where
  "tickers_of h = concat (map ticker_of h)"


definition storage_accepts :: "obj list \<Rightarrow> bool" where
  "storage_accepts cases = True"

definition storage_full :: "obj list \<Rightarrow> bool" where
  "storage_full cases = False"

text \<open>An archived result with a timestamp, and one that came without.\<close>

definition example_result :: "string \<Rightarrow> real \<Rightarrow> string \<Rightarrow> AnalysisResult" where
  "example_result i t k = \<lparr>id_of = i, timestamp = Finite t, ticker_of = k\<rparr>"


text \<open>
  A filled form (the raw intelligence text is left open) and two payloads of the
  inference service: one that carries an \<open>id\<close> and a \<open>timestamp\<close> of its own,
  one whose direction is outside the enumeration. \<open>example_parseFloat\<close> reads a
  non-empty string of decimal digits as the integer it denotes, which is what
  \<open>parseFloat\<close> returns for such a string below \<open>2^53\<close>; it is used on such
  strings only and answers \<open>NaN\<close> on every other string.
\<close>

definition example_form :: "string \<Rightarrow> StockAnalysisInput" where
  "example_form raw =
     \<lparr>ticker = ''BBCA'', price = ''9000'', capital = ''2000000000'',
      capitalTier = RETAIL, riskProfile = BALANCED,
      fundamentals = \<lparr>roe = ''21'', der = ''0.4'', pbv = ''4.8'', per = ''24'',
                      npm = ''12.5'', growth = ''8.3'', cfo = ''55'', fcf = ''41''\<rparr>,
      bandarmology = \<lparr>orderBookBid = ''bid'', orderBookAsk = ''ask'', tradeBookBid = ''haki'',
                      tradeBookAsk = ''haka'', brokerSummaryVal = 50, topBrokers = ''ZP, AK'',
                      duration = ''Last 3 Months'', bandarAvgPrice = ''8800''\<rparr>,
      rawIntelligenceData = raw\<rparr>"

definition digits_value :: "string \<Rightarrow> nat" where
  "digits_value s = foldl (\<lambda>n ch. 10 * n + (of_char ch - 48)) 0 s"

definition example_parseFloat :: "string \<Rightarrow> jsnumber" where
  "example_parseFloat s =
     (if s \<noteq> [] \<and> list_all (\<lambda>ch. ch \<in> set ''0123456789'') s
      then Finite (real (digits_value s)) else NaN)"

definition with_capital :: "CapitalTier \<Rightarrow> string \<Rightarrow> StockAnalysisInput" where
  "with_capital tier c = (example_form [])\<lparr>capital := c, capitalTier := tier\<rparr>"

definition model_payload :: json where
  "model_payload =
     JObj [(''id'', JStr ''from-the-model''), (''timestamp'', JNum 1), (''ticker'', JStr ''BBCA'')]"

definition sideways_payload :: json where
  "sideways_payload = JObj [(''prediction'', JObj [(''direction'', JStr ''SIDEWAYS'')])]"


definition legacy_entry :: obj where
  "legacy_entry = [(''ticker'', JStr ''BBCA'')]"

definition keyed_entry :: obj where
  "keyed_entry = [(''id'', JStr ''a''), (''ticker'', JStr ''BBCA'')]"

definition vault_of :: "obj list \<Rightarrow> app" where
  "vault_of cases = \<lparr>vaultCases = cases, persisted = Some cases, alerts = [], drawn = 0\<rparr>"

definition example_report :: string where
  "example_report =
     ''Market cap 1100T, average daily volume 85M shares, foreign net buy for five days.''"

section \<open>The consistency engine: precondition and ordering\<close>

lemma timestamp_example_result: "timestamp (example_result i t k) = Finite t"
  by (simp add: example_result_def)


lemma length_js_insert: "length (js_insert c x xs) = Suc (length xs)"
  by (induction xs) simp_all

lemma length_js_sort: "length (js_sort c xs) = length xs"
  by (induction xs) (simp_all add: js_sort_def length_js_insert)












lemma sorted_history_Nil: "(sorted_history h = []) = (h = [])"
proof -
  have "length (sorted_history h) = length h"
    by (simp add: sorted_history_def length_js_sort)
  then show ?thesis by (metis length_0_conv)
qed

lemma runConsistencyCheck_Nil:
  "sorted_history history = [] \<Longrightarrow> runConsistencyCheck gc p s history = ([], Inl TypeError)"
  unfolding runConsistencyCheck_def Let_def by simp

lemma runConsistencyCheck_Cons:
  assumes "sorted_history history = a # as"
  shows "runConsistencyCheck gc p s history =
     (case gc (consistency_request (consistency_prompt s a (a # as))) of
        Inl e \<Rightarrow> ([consistency_request (consistency_prompt s a (a # as))], Inl e)
      | Inr text \<Rightarrow>
          (case p text of
             None \<Rightarrow> ([consistency_request (consistency_prompt s a (a # as))], Inl SyntaxError)
           | Some r \<Rightarrow> ([consistency_request (consistency_prompt s a (a # as))], Inr r)))"
  unfolding runConsistencyCheck_def Let_def assms by simp

lemma runConsistencyCheck_requests:
  assumes "history \<noteq> []"
  shows "fst (runConsistencyCheck gc p s history) =
     [consistency_request
        (consistency_prompt s (hd (sorted_history history)) (sorted_history history))]"
proof -
  obtain a as where c: "sorted_history history = a # as"
    using assms sorted_history_Nil [of history] by (cases "sorted_history history") auto
  have "fst (runConsistencyCheck gc p s history) =
          [consistency_request (consistency_prompt s a (a # as))]"
    unfolding runConsistencyCheck_Cons [OF c] by (simp split: sum.split option.split)
  then show ?thesis by (simp add: c)
qed

lemma sorted_history_single:
  "sorted_history [example_result ''a'' 100 ''BBCA''] = [example_result ''a'' 100 ''BBCA'']"
  by (simp add: sorted_history_def js_sort_def)

lemma sorted_history_two_tickers:
  "sorted_history [example_result ''a'' 100 ''BBCA'', example_result ''b'' 200 ''TLKM''] =
     [example_result ''a'' 100 ''BBCA'', example_result ''b'' 200 ''TLKM'']"
  by (simp add: sorted_history_def js_sort_def timestamp_example_result)



text \<open>
  C1, as stated, fails: a history of one entry, and a history of two entries with the
  tickers BBCA and TLKM, each lead to one request to the inference service, and the call
  returns what the service answered.
\<close>

theorem runConsistencyCheck_calls_on_single_and_mixed:
  "runConsistencyCheck (answering ''{}'') (parses_to (JObj [])) tickers_of
     [example_result ''a'' 100 ''BBCA'']
   = ([consistency_request (consistency_prompt tickers_of (example_result ''a'' 100 ''BBCA'')
         [example_result ''a'' 100 ''BBCA''])], Inr (JObj []))
   \<and> runConsistencyCheck (answering ''{}'') (parses_to (JObj [])) tickers_of
     [example_result ''a'' 100 ''BBCA'', example_result ''b'' 200 ''TLKM''] =
     ([consistency_request (consistency_prompt tickers_of (example_result ''a'' 100 ''BBCA'')
         [example_result ''a'' 100 ''BBCA'', example_result ''b'' 200 ''TLKM''])],
      Inr (JObj []))"
  unfolding runConsistencyCheck_Cons [OF sorted_history_single]
    runConsistencyCheck_Cons [OF sorted_history_two_tickers]
  by (simp add: answering_def parses_to_def)

text \<open>
  C1, amended: \<open>runConsistencyCheck\<close> checks neither the size of the history nor its
  tickers. On the empty history it throws a TypeError and issues no request; on every
  other history it issues exactly one request, built from the sorted history.
\<close>

theorem runConsistencyCheck_fails_only_on_empty:
  "(history = [] \<longrightarrow> runConsistencyCheck gc p s history = ([], Inl TypeError)) \<and>
   (history \<noteq> [] \<longrightarrow>
      fst (runConsistencyCheck gc p s history) =
        [consistency_request
           (consistency_prompt s (hd (sorted_history history)) (sorted_history history))])"
proof (intro conjI impI)
  assume "history = []"
  then have "sorted_history history = []" by (simp add: sorted_history_Nil)
  then show "runConsistencyCheck gc p s history = ([], Inl TypeError)"
    by (rule runConsistencyCheck_Nil)
next
  assume "history \<noteq> []"
  then show "fst (runConsistencyCheck gc p s history) =
        [consistency_request
           (consistency_prompt s (hd (sorted_history history)) (sorted_history history))]"
    by (rule runConsistencyCheck_requests)
qed

theorem runConsistencyCheck_fails_only_on_empty_witness:
  "runConsistencyCheck (answering ''{}'') (parses_to (JObj [])) tickers_of [] =
     ([], Inl TypeError) \<and>
   fst (runConsistencyCheck (answering ''{}'') (parses_to (JObj [])) tickers_of
         [example_result ''a'' 100 ''BBCA'']) =
     [consistency_request (consistency_prompt tickers_of (example_result ''a'' 100 ''BBCA'')
        [example_result ''a'' 100 ''BBCA''])]"
  using runConsistencyCheck_fails_only_on_empty
          [of "[]" "answering ''{}''" "parses_to (JObj [])" tickers_of]
        runConsistencyCheck_fails_only_on_empty
          [of "[example_result ''a'' 100 ''BBCA'']" "answering ''{}''" "parses_to (JObj [])"
              tickers_of]
  unfolding sorted_history_single by simp










section \<open>The input form: submission gate and capital advisory\<close>

text \<open>
  C8: the form hands its data to \<open>onSubmit\<close> exactly when ticker, price and capital
  are non-empty, the eight fundamentals are non-empty, the top-broker codes and the
  average price are non-empty, and the raw intelligence text is longer than 50
  characters. A text of exactly 50 characters is refused; with 51 characters, and the
  other conditions met, the data is handed on.
\<close>

theorem submission_eligibility:
  "form_onSubmit fd =
     (if ticker fd \<noteq> [] \<and> price fd \<noteq> [] \<and> capital fd \<noteq> [] \<and>
         roe (fundamentals fd) \<noteq> [] \<and> der (fundamentals fd) \<noteq> [] \<and>
         pbv (fundamentals fd) \<noteq> [] \<and> per (fundamentals fd) \<noteq> [] \<and>
         npm (fundamentals fd) \<noteq> [] \<and> growth (fundamentals fd) \<noteq> [] \<and>
         cfo (fundamentals fd) \<noteq> [] \<and> fcf (fundamentals fd) \<noteq> [] \<and>
         topBrokers (bandarmology fd) \<noteq> [] \<and> bandarAvgPrice (bandarmology fd) \<noteq> [] \<and>
         length (rawIntelligenceData fd) > 50
      then Some fd else None) \<and>
   (length (rawIntelligenceData fd) = 50 \<longrightarrow> form_onSubmit fd = None) \<and>
   (ticker fd \<noteq> [] \<and> price fd \<noteq> [] \<and> capital fd \<noteq> [] \<and>
    roe (fundamentals fd) \<noteq> [] \<and> der (fundamentals fd) \<noteq> [] \<and>
    pbv (fundamentals fd) \<noteq> [] \<and> per (fundamentals fd) \<noteq> [] \<and>
    npm (fundamentals fd) \<noteq> [] \<and> growth (fundamentals fd) \<noteq> [] \<and>
    cfo (fundamentals fd) \<noteq> [] \<and> fcf (fundamentals fd) \<noteq> [] \<and>
    topBrokers (bandarmology fd) \<noteq> [] \<and> bandarAvgPrice (bandarmology fd) \<noteq> [] \<and>
    length (rawIntelligenceData fd) = 51 \<longrightarrow> form_onSubmit fd = Some fd)"
  by (simp add: form_onSubmit_def isStepValid_def fundamentals_values_def)

text \<open>The filled form with 50 and with 51 characters of raw intelligence text.\<close>

theorem submission_eligibility_witness:
  "form_onSubmit (example_form (replicate 50 CHR ''x'')) = None \<and>
   form_onSubmit (example_form (replicate 51 CHR ''x'')) =
     Some (example_form (replicate 51 CHR ''x''))"
  using submission_eligibility [of "example_form (replicate 50 CHR ''x'')"]
        submission_eligibility [of "example_form (replicate 51 CHR ''x'')"]
  by (simp add: example_form_def)

lemma digits_examples:
  "digits_value ''150000000'' = 150000000"
  "digits_value ''150000001'' = 150000001"
  "digits_value ''600000000'' = 600000000"
  "digits_value ''600000001'' = 600000001"
  "digits_value ''2000000000'' = 2000000000"
  "digits_value ''999999999'' = 999999999"
  "digits_value ''1000000000'' = 1000000000"
  "digits_value ''500000000'' = 500000000"
  by (simp_all add: digits_value_def)

lemma parse_examples:
  "example_parseFloat ''150000000'' = Finite 150000000"
  "example_parseFloat ''150000001'' = Finite 150000001"
  "example_parseFloat ''600000000'' = Finite 600000000"
  "example_parseFloat ''600000001'' = Finite 600000001"
  "example_parseFloat ''2000000000'' = Finite 2000000000"
  "example_parseFloat ''999999999'' = Finite 999999999"
  "example_parseFloat ''1000000000'' = Finite 1000000000"
  "example_parseFloat ''500000000'' = Finite 500000000"
  "example_parseFloat ''abc'' = NaN"
  by (simp_all add: example_parseFloat_def digits_examples)

lemma with_capital_sel:
  "capital (with_capital tier c) = c" "capitalTier (with_capital tier c) = tier"
  by (simp_all add: with_capital_def)

text \<open>
  C7: with an empty capital there is no advisory. With a capital that parses to the
  number \<open>a\<close>, the advisory is the CRITICAL message when the tier is MICRO and
  \<open>a > 150,000,000\<close>; else the WARNING message when the tier is RETAIL and
  \<open>a > 600,000,000\<close>; else the INVALID message when the tier is INSTITUTIONAL and
  \<open>a < 1,000,000,000\<close>; else none. A capital that parses to \<open>+Infinity\<close> is
  above both upper limits, one that parses to \<open>-Infinity\<close> is below the lower limit,
  and one that does not parse to a number gets no advisory. Two form states with the
  same capital and tier get the same advisory.
\<close>

theorem capitalWarning_rules:
  "(capital fd = [] \<longrightarrow> capitalWarning pf fd = None) \<and>
   (capital fd \<noteq> [] \<and> pf (capital fd) = Finite a \<longrightarrow>
      capitalWarning pf fd =
        (if capitalTier fd = MICRO \<and> a > 150000000 then
           Some ''CRITICAL: Nominal modal terlalu besar untuk Tier MICRO.''
         else if capitalTier fd = RETAIL \<and> a > 600000000 then
           Some ''WARNING: Modal Anda mendekati High Net Worth. Pertimbangkan upgrade Tier.''
         else if capitalTier fd = INSTITUTIONAL \<and> a < 1000000000 then
           Some ''INVALID: Tier Institutional butuh modal minimal 1 Miliar.''
         else None)) \<and>
   (capital fd \<noteq> [] \<and> pf (capital fd) = PosInfinity \<longrightarrow>
      capitalWarning pf fd =
        (if capitalTier fd = MICRO then
           Some ''CRITICAL: Nominal modal terlalu besar untuk Tier MICRO.''
         else if capitalTier fd = RETAIL then
           Some ''WARNING: Modal Anda mendekati High Net Worth. Pertimbangkan upgrade Tier.''
         else None)) \<and>
   (capital fd \<noteq> [] \<and> pf (capital fd) = NegInfinity \<longrightarrow>
      capitalWarning pf fd =
        (if capitalTier fd = INSTITUTIONAL then
           Some ''INVALID: Tier Institutional butuh modal minimal 1 Miliar.''
         else None)) \<and>
   (pf (capital fd) = NaN \<longrightarrow> capitalWarning pf fd = None) \<and>
   (capital fd' = capital fd \<and> capitalTier fd' = capitalTier fd \<longrightarrow>
      capitalWarning pf fd' = capitalWarning pf fd)"
  by (simp add: capitalWarning_def Let_def)

text \<open>
  Each tier at its limit and next to it: 150,000,001 and 150,000,000 in the MICRO tier;
  2,000,000,000, 600,000,001, 600,000,000 and 150,000,001 in the RETAIL tier;
  500,000,000, 999,999,999 and 1,000,000,000 in the INSTITUTIONAL tier; two amounts in
  the HIGH_NET tier, which has no rule; an empty capital, a capital that is not a
  number, and a change of another field.
\<close>

theorem capitalWarning_rules_witness:
  "capitalWarning example_parseFloat (with_capital MICRO ''150000001'') =
     Some ''CRITICAL: Nominal modal terlalu besar untuk Tier MICRO.'' \<and>
   capitalWarning example_parseFloat (with_capital MICRO ''150000000'') = None \<and>
   capitalWarning example_parseFloat (with_capital RETAIL ''2000000000'') =
     Some ''WARNING: Modal Anda mendekati High Net Worth. Pertimbangkan upgrade Tier.'' \<and>
   capitalWarning example_parseFloat (with_capital RETAIL ''600000001'') =
     Some ''WARNING: Modal Anda mendekati High Net Worth. Pertimbangkan upgrade Tier.'' \<and>
   capitalWarning example_parseFloat (with_capital RETAIL ''600000000'') = None \<and>
   capitalWarning example_parseFloat (with_capital RETAIL ''150000001'') = None \<and>
   capitalWarning example_parseFloat (with_capital INSTITUTIONAL ''500000000'') =
     Some ''INVALID: Tier Institutional butuh modal minimal 1 Miliar.'' \<and>
   capitalWarning example_parseFloat (with_capital INSTITUTIONAL ''999999999'') =
     Some ''INVALID: Tier Institutional butuh modal minimal 1 Miliar.'' \<and>
   capitalWarning example_parseFloat (with_capital INSTITUTIONAL ''1000000000'') = None \<and>
   capitalWarning example_parseFloat (with_capital HIGH_NET ''2000000000'') = None \<and>
   capitalWarning example_parseFloat (with_capital HIGH_NET ''500000000'') = None \<and>
   capitalWarning example_parseFloat (with_capital MICRO []) = None \<and>
   capitalWarning example_parseFloat (with_capital MICRO ''abc'') = None \<and>
   capitalWarning example_parseFloat ((with_capital MICRO ''150000001'')\<lparr>ticker := ''TLKM''\<rparr>) =
     capitalWarning example_parseFloat (with_capital MICRO ''150000001'')"
proof -
  have c1: "capitalWarning example_parseFloat (with_capital MICRO ''150000001'') =
      Some ''CRITICAL: Nominal modal terlalu besar untuk Tier MICRO.''"
    using capitalWarning_rules [of "with_capital MICRO ''150000001''" example_parseFloat 150000001]
    by (simp add: with_capital_sel parse_examples)
  have c2: "capitalWarning example_parseFloat (with_capital MICRO ''150000000'') =
      None"
    using capitalWarning_rules [of "with_capital MICRO ''150000000''" example_parseFloat 150000000]
    by (simp add: with_capital_sel parse_examples)
  have c3: "capitalWarning example_parseFloat (with_capital RETAIL ''2000000000'') =
      Some ''WARNING: Modal Anda mendekati High Net Worth. Pertimbangkan upgrade Tier.''"
    using capitalWarning_rules [of "with_capital RETAIL ''2000000000''" example_parseFloat 2000000000]
    by (simp add: with_capital_sel parse_examples)
  have c4: "capitalWarning example_parseFloat (with_capital RETAIL ''600000001'') =
      Some ''WARNING: Modal Anda mendekati High Net Worth. Pertimbangkan upgrade Tier.''"
    using capitalWarning_rules [of "with_capital RETAIL ''600000001''" example_parseFloat 600000001]
    by (simp add: with_capital_sel parse_examples)
  have c5: "capitalWarning example_parseFloat (with_capital RETAIL ''600000000'') =
      None"
    using capitalWarning_rules [of "with_capital RETAIL ''600000000''" example_parseFloat 600000000]
    by (simp add: with_capital_sel parse_examples)
  have c6: "capitalWarning example_parseFloat (with_capital RETAIL ''150000001'') =
      None"
    using capitalWarning_rules [of "with_capital RETAIL ''150000001''" example_parseFloat 150000001]
    by (simp add: with_capital_sel parse_examples)
  have c7: "capitalWarning example_parseFloat (with_capital INSTITUTIONAL ''500000000'') =
      Some ''INVALID: Tier Institutional butuh modal minimal 1 Miliar.''"
    using capitalWarning_rules [of "with_capital INSTITUTIONAL ''500000000''" example_parseFloat 500000000]
    by (simp add: with_capital_sel parse_examples)
  have c8: "capitalWarning example_parseFloat (with_capital INSTITUTIONAL ''999999999'') =
      Some ''INVALID: Tier Institutional butuh modal minimal 1 Miliar.''"
    using capitalWarning_rules [of "with_capital INSTITUTIONAL ''999999999''" example_parseFloat 999999999]
    by (simp add: with_capital_sel parse_examples)
  have c9: "capitalWarning example_parseFloat (with_capital INSTITUTIONAL ''1000000000'') =
      None"
    using capitalWarning_rules [of "with_capital INSTITUTIONAL ''1000000000''" example_parseFloat 1000000000]
    by (simp add: with_capital_sel parse_examples)
  have c10: "capitalWarning example_parseFloat (with_capital HIGH_NET ''2000000000'') =
      None"
    using capitalWarning_rules [of "with_capital HIGH_NET ''2000000000''" example_parseFloat 2000000000]
    by (simp add: with_capital_sel parse_examples)
  have c11: "capitalWarning example_parseFloat (with_capital HIGH_NET ''500000000'') =
      None"
    using capitalWarning_rules [of "with_capital HIGH_NET ''500000000''" example_parseFloat 500000000]
    by (simp add: with_capital_sel parse_examples)
  have c12: "capitalWarning example_parseFloat (with_capital MICRO []) =
      None"
    using capitalWarning_rules [of "with_capital MICRO []" example_parseFloat]
    by (simp add: with_capital_sel parse_examples)
  have c13: "capitalWarning example_parseFloat (with_capital MICRO ''abc'') =
      None"
    using capitalWarning_rules [of "with_capital MICRO ''abc''" example_parseFloat]
    by (simp add: with_capital_sel parse_examples)
  have c14: "capitalWarning example_parseFloat ((with_capital MICRO ''150000001'')\<lparr>ticker := ''TLKM''\<rparr>) =
     capitalWarning example_parseFloat (with_capital MICRO ''150000001'')"
    using capitalWarning_rules [of "with_capital MICRO ''150000001''" example_parseFloat 150000001
           "(with_capital MICRO ''150000001'')\<lparr>ticker := ''TLKM''\<rparr>"]
    by (simp add: with_capital_def)
  show ?thesis
    by (intro conjI) (fact c1 c2 c3 c4 c5 c6 c7 c8 c9 c10 c11 c12 c13 c14)+
qed


section \<open>The analysis gateway: what a call returns\<close>

lemma analyzeStock_requests:
  "fst (analyzeStock gc p uuid now input) = [analysis_request input]"
  unfolding analyzeStock_def Let_def by (simp split: sum.split option.split)

lemma analyzeStock_transport:
  "gc (analysis_request input) = Inl e \<Longrightarrow> snd (analyzeStock gc p uuid now input) = Inl e"
  unfolding analyzeStock_def Let_def by simp

lemma analyzeStock_unparsable:
  "gc (analysis_request input) = Inr text \<Longrightarrow> p text = None \<Longrightarrow>
   snd (analyzeStock gc p uuid now input) = Inl SyntaxError"
  unfolding analyzeStock_def Let_def by simp

lemma analyzeStock_parsed:
  "gc (analysis_request input) = Inr text \<Longrightarrow> p text = Some data \<Longrightarrow>
   snd (analyzeStock gc p uuid now input) =
     Inr (AList.update ''sources'' (JArr [])
           (AList.update ''timestamp'' (JNum now)
             (AList.update ''id'' (JStr uuid) (spread data))))"
  unfolding analyzeStock_def Let_def by simp

lemma stamped_props:
  "map_of (AList.update ''sources'' (JArr [])
           (AList.update ''timestamp'' (JNum now)
             (AList.update ''id'' (JStr uuid) ps))) k =
   (if k = ''sources'' then Some (JArr [])
    else if k = ''timestamp'' then Some (JNum now)
    else if k = ''id'' then Some (JStr uuid)
    else map_of ps k)"
  by (simp add: update_conv)

text \<open>
  C5: whenever \<open>analyzeStock\<close> returns a result, its \<open>id\<close> is the identifier
  generated locally, its \<open>timestamp\<close> is the local time, and its \<open>sources\<close> is the
  empty list (whether or not the response had one); every other property is the one of
  the parsed response. An \<open>id\<close> or \<open>timestamp\<close> of the response is thus
  overwritten.
\<close>

theorem analyzeStock_stamps_identity:
  assumes "snd (analyzeStock gc p uuid now input) = Inr r"
  shows "map_of r ''id'' = Some (JStr uuid) \<and>
         map_of r ''timestamp'' = Some (JNum now) \<and>
         map_of r ''sources'' = Some (JArr []) \<and>
         (\<exists>text data. gc (analysis_request input) = Inr text \<and> p text = Some data \<and>
            (\<forall>k. k \<noteq> ''id'' \<and> k \<noteq> ''timestamp'' \<and> k \<noteq> ''sources'' \<longrightarrow>
                 map_of r k = map_of (spread data) k))"
proof (cases "gc (analysis_request input)")
  case (Inl e)
  then have "snd (analyzeStock gc p uuid now input) = Inl e"
    by (simp add: analyzeStock_transport)
  with assms show ?thesis by simp
next
  case (Inr body)
  show ?thesis
  proof (cases "p body")
    case None
    with Inr have "snd (analyzeStock gc p uuid now input) = Inl SyntaxError"
      by (simp add: analyzeStock_unparsable)
    with assms show ?thesis by simp
  next
    case (Some data)
    from Inr Some assms
    have r: "r = AList.update ''sources'' (JArr [])
           (AList.update ''timestamp'' (JNum now)
             (AList.update ''id'' (JStr uuid) (spread data)))"
      by (simp add: analyzeStock_parsed)
    have "\<forall>k. k \<noteq> ''id'' \<and> k \<noteq> ''timestamp'' \<and> k \<noteq> ''sources'' \<longrightarrow>
                 map_of r k = map_of (spread data) k"
      unfolding r stamped_props by simp
    moreover have "map_of r ''id'' = Some (JStr uuid)" "map_of r ''timestamp'' = Some (JNum now)"
        "map_of r ''sources'' = Some (JArr [])"
      unfolding r stamped_props by simp_all
    ultimately show ?thesis using Inr Some by blast
  qed
qed

lemma model_payload_run:
  "snd (analyzeStock (answering ''text'') (parses_to model_payload) ''uuid-0'' 1700000000000 (example_form [])) =
     Inr [(''id'', JStr ''uuid-0''), (''timestamp'', JNum 1700000000000), (''ticker'', JStr ''BBCA''),
          (''sources'', JArr [])]"
proof -
  have "answering ''text'' (analysis_request (example_form [])) = Inr ''text''"
    by (simp add: answering_def)
  moreover have "parses_to model_payload ''text'' = Some model_payload"
    by (simp add: parses_to_def)
  ultimately show ?thesis
    by (simp add: analyzeStock_parsed model_payload_def spread_def)
qed

text \<open>A response that carries \<open>id\<close> and \<open>timestamp\<close> of its own loses both.\<close>

theorem analyzeStock_stamps_identity_witness:
  "snd (analyzeStock (answering ''text'') (parses_to model_payload) ''uuid-0'' 1700000000000 (example_form [])) =
     Inr [(''id'', JStr ''uuid-0''), (''timestamp'', JNum 1700000000000), (''ticker'', JStr ''BBCA''),
          (''sources'', JArr [])] \<and>
   map_of (spread model_payload) ''id'' = Some (JStr ''from-the-model'') \<and>
   map_of [(''id'', JStr ''uuid-0''), (''timestamp'', JNum 1700000000000), (''ticker'', JStr ''BBCA''),
          (''sources'', JArr [])] ''id'' = Some (JStr ''uuid-0'')"
  using analyzeStock_stamps_identity [OF model_payload_run] model_payload_run
  by (simp add: model_payload_def spread_def)

text \<open>
  C4, as stated, fails: the payload \<open>{}\<close> misses every required key of
  \<open>responseSchema\<close>, and a payload whose \<open>prediction.direction\<close> is \<open>SIDEWAYS\<close>
  is outside the enumeration; \<open>analyzeStock\<close> returns both, stamped, as results.
\<close>

theorem analyzeStock_returns_nonconforming_payload:
  "missing_required_key responseSchema (JObj []) \<and>
   analyzeStock (answering ''{}'') (parses_to (JObj [])) ''uuid-0'' 1700000000000 (example_form [])
     = ([analysis_request (example_form [])],
        Inr [(''id'', JStr ''uuid-0''), (''timestamp'', JNum 1700000000000), (''sources'', JArr [])]) \<and>
   outside_enum responseSchema sideways_payload [''prediction'', ''direction''] \<and>
   analyzeStock (answering ''text'') (parses_to sideways_payload) ''uuid-0'' 1700000000000 (example_form [])
     = ([analysis_request (example_form [])],
        Inr [(''prediction'', JObj [(''direction'', JStr ''SIDEWAYS'')]),
             (''id'', JStr ''uuid-0''), (''timestamp'', JNum 1700000000000), (''sources'', JArr [])])"
proof -
  have 1: "missing_required_key responseSchema (JObj [])"
    by (simp add: missing_required_key_def required_keys_def responseSchema_def)
  have 2: "outside_enum responseSchema sideways_payload [''prediction'', ''direction'']"
    by (simp add: outside_enum_def responseSchema_def sideways_payload_def)
  have 3: "analyzeStock (answering ''{}'') (parses_to (JObj [])) ''uuid-0'' 1700000000000 (example_form [])
     = ([analysis_request (example_form [])],
        Inr [(''id'', JStr ''uuid-0''), (''timestamp'', JNum 1700000000000), (''sources'', JArr [])])"
    unfolding analyzeStock_def Let_def by (simp add: answering_def parses_to_def spread_def)
  have 4: "analyzeStock (answering ''text'') (parses_to sideways_payload) ''uuid-0'' 1700000000000 (example_form [])
     = ([analysis_request (example_form [])],
        Inr [(''prediction'', JObj [(''direction'', JStr ''SIDEWAYS'')]),
             (''id'', JStr ''uuid-0''), (''timestamp'', JNum 1700000000000), (''sources'', JArr [])])"
    unfolding analyzeStock_def Let_def by (simp add: answering_def parses_to_def spread_def sideways_payload_def)
  from 1 2 3 4 show ?thesis by blast
qed

text \<open>
  C4, amended: \<open>analyzeStock\<close> issues one request, which carries \<open>responseSchema\<close>
  as the shape asked of the service, and checks nothing itself. It fails exactly when the
  service fails or the response text does not parse; every parsed payload is returned,
  with its own properties apart from \<open>id\<close>, \<open>timestamp\<close> and \<open>sources\<close>.
\<close>

theorem analyzeStock_fails_only_on_transport_or_parse:
  "fst (analyzeStock gc p uuid now input) = [analysis_request input] \<and>
   requestSchema (analysis_request input) = responseSchema \<and>
   ((\<exists>e. snd (analyzeStock gc p uuid now input) = Inl e) =
      ((\<exists>e. gc (analysis_request input) = Inl e) \<or>
       (\<exists>text. gc (analysis_request input) = Inr text \<and> p text = None))) \<and>
   (\<forall>text data. gc (analysis_request input) = Inr text \<and> p text = Some data \<longrightarrow>
      (\<exists>r. snd (analyzeStock gc p uuid now input) = Inr r \<and>
           (\<forall>k. k \<noteq> ''id'' \<and> k \<noteq> ''timestamp'' \<and> k \<noteq> ''sources'' \<longrightarrow>
                map_of r k = map_of (spread data) k)))"
proof -
  have 1: "fst (analyzeStock gc p uuid now input) = [analysis_request input]"
    by (rule analyzeStock_requests)
  have 2: "requestSchema (analysis_request input) = responseSchema"
    by (simp add: analysis_request_def)
  have 3: "(\<exists>e. snd (analyzeStock gc p uuid now input) = Inl e) =
      ((\<exists>e. gc (analysis_request input) = Inl e) \<or>
       (\<exists>text. gc (analysis_request input) = Inr text \<and> p text = None))"
  proof (cases "gc (analysis_request input)")
    case (Inl e)
    then show ?thesis by (simp add: analyzeStock_transport)
  next
    case (Inr body)
    show ?thesis
    proof (cases "p body")
      case None
      with Inr show ?thesis by (simp add: analyzeStock_unparsable)
    next
      case (Some data)
      with Inr show ?thesis by (simp add: analyzeStock_parsed)
    qed
  qed
  have 4: "\<forall>text data. gc (analysis_request input) = Inr text \<and> p text = Some data \<longrightarrow>
      (\<exists>r. snd (analyzeStock gc p uuid now input) = Inr r \<and>
           (\<forall>k. k \<noteq> ''id'' \<and> k \<noteq> ''timestamp'' \<and> k \<noteq> ''sources'' \<longrightarrow>
                map_of r k = map_of (spread data) k))"
  proof (intro allI impI)
    fix body data
    assume a: "gc (analysis_request input) = Inr body \<and> p body = Some data"
    then have "snd (analyzeStock gc p uuid now input) =
     Inr (AList.update ''sources'' (JArr [])
           (AList.update ''timestamp'' (JNum now)
             (AList.update ''id'' (JStr uuid) (spread data))))"
      by (simp add: analyzeStock_parsed)
    moreover have "\<forall>k. k \<noteq> ''id'' \<and> k \<noteq> ''timestamp'' \<and> k \<noteq> ''sources'' \<longrightarrow>
       map_of (AList.update ''sources'' (JArr [])
           (AList.update ''timestamp'' (JNum now)
             (AList.update ''id'' (JStr uuid) (spread data)))) k = map_of (spread data) k"
      unfolding stamped_props by simp
    ultimately show "\<exists>r. snd (analyzeStock gc p uuid now input) = Inr r \<and>
           (\<forall>k. k \<noteq> ''id'' \<and> k \<noteq> ''timestamp'' \<and> k \<noteq> ''sources'' \<longrightarrow>
                map_of r k = map_of (spread data) k)"
      by blast
  qed
  from 1 2 3 4 show ?thesis by blast
qed

text \<open>The payload \<open>{}\<close> is returned, and the result has no ticker.\<close>

theorem analyzeStock_fails_only_on_transport_or_parse_witness:
  "answering ''{}'' (analysis_request (example_form [])) = Inr ''{}'' \<and>
   parses_to (JObj []) ''{}'' = Some (JObj []) \<and>
   snd (analyzeStock (answering ''{}'') (parses_to (JObj [])) ''uuid-0'' 1700000000000
         (example_form [])) \<noteq> Inl SyntaxError \<and>
   fst (analyzeStock unreachable_service (parses_to (JObj [])) ''uuid-0'' 1700000000000
         (example_form [])) = [analysis_request (example_form [])]"
proof -
  have a: "answering ''{}'' (analysis_request (example_form [])) = Inr ''{}'' \<and>
           parses_to (JObj []) ''{}'' = Some (JObj [])"
    by (simp add: answering_def parses_to_def)
  from analyzeStock_fails_only_on_transport_or_parse
         [of "answering ''{}''" "parses_to (JObj [])" "''uuid-0''" 1700000000000 "example_form []"] a
  obtain r where "snd (analyzeStock (answering ''{}'') (parses_to (JObj [])) ''uuid-0''
                        1700000000000 (example_form [])) = Inr r"
    by blast
  then have 1: "snd (analyzeStock (answering ''{}'') (parses_to (JObj [])) ''uuid-0''
                      1700000000000 (example_form [])) \<noteq> Inl SyntaxError"
    by simp
  from analyzeStock_fails_only_on_transport_or_parse
         [of unreachable_service "parses_to (JObj [])" "''uuid-0''" 1700000000000 "example_form []"]
  have 2: "fst (analyzeStock unreachable_service (parses_to (JObj [])) ''uuid-0'' 1700000000000
         (example_form [])) = [analysis_request (example_form [])]"
    by blast
  from a 1 2 show ?thesis by blast
qed

section \<open>The analysis gateway: what the prompt contains\<close>

lemma example_prompt:
  "prompt (example_form example_report) =
     ''\<newline>    INSTITUTIONAL AUDIT REQUEST: BBCA @ 9000'' @
     ''\<newline>    CLIENT MANDATE: BALANCED'' @
     ''\<newline>    CLIENT CAPITAL: 2000000000 IDR (Tier selected: RETAIL)'' @
     ''\<newline>    '' @
     ''\<newline>    [LOGIC INJECTION]'' @
     ''\<newline>    RISK PROFILE: BALANCED. Standard institutional weighting.'' @
     ''\<newline>'' @
     ''\<newline>    [FUNDAMENTAL DATA - AUDITED]'' @
     ''\<newline>    ROE: 21% | DER: 0.4x | PBV: 4.8x'' @
     ''\<newline>    PER: 24x | CFO (Operating Cash): 55 | FCF (Free Cash): 41'' @
     ''\<newline>    '' @
     ''\<newline>    [MARKET STRUCTURE DATA]'' @
     ''\<newline>    Bandar Score: 50 | Top Actors: ZP, AK | Avg Cost: 8800'' @
     ''\<newline>    Bid Depth: bid '' @
     ''\<newline>    Offer Depth: ask'' @
     ''\<newline>    Haka (Aggressive Buy): haka '' @
     ''\<newline>    Haki (Aggressive Sell): haki'' @
     ''\<newline>    '' @
     ''\<newline>    [INTELLIGENCE REPORT]'' @
     ''\<newline>    Market cap 1100T, average daily volume 85M shares, foreign net buy for five days.'' @
     ''\<newline>    ''"
  by (simp add: prompt_def example_form_def example_report_def riskInstruction_def decimal.simps)

text \<open>
  C3 fails on the code: the prompt of a form that passes the submission gate, with net
  profit margin \<open>12.5\<close>, growth \<open>8.3\<close> and duration \<open>Last 3 Months\<close>, contains
  none of the three values. The template has no place for \<open>npm\<close>, \<open>growth\<close> and
  \<open>duration\<close>.
\<close>

theorem prompt_omits_npm_growth_duration:
  "form_onSubmit (example_form example_report) = Some (example_form example_report) \<and>
   npm (fundamentals (example_form example_report)) = ''12.5'' \<and>
   \<not> sublist ''12.5'' (prompt (example_form example_report)) \<and>
   growth (fundamentals (example_form example_report)) = ''8.3'' \<and>
   \<not> sublist ''8.3'' (prompt (example_form example_report)) \<and>
   duration (bandarmology (example_form example_report)) = ''Last 3 Months'' \<and>
   \<not> sublist ''Last 3 Months'' (prompt (example_form example_report))"
proof -
  have 1: "\<not> sublist ''12.5'' (prompt (example_form example_report))"
    unfolding example_prompt by code_simp
  have 2: "\<not> sublist ''8.3'' (prompt (example_form example_report))"
    unfolding example_prompt by code_simp
  have 3: "\<not> sublist ''Last 3 Months'' (prompt (example_form example_report))"
    unfolding example_prompt by code_simp
  have 4: "form_onSubmit (example_form example_report) = Some (example_form example_report)"
    by (simp add: form_onSubmit_def isStepValid_def fundamentals_values_def example_form_def example_report_def)
  from 1 2 3 4 show ?thesis by (simp add: example_form_def)
qed

text \<open>Every other field of the input is in the prompt, the raw text in full.\<close>

lemma sublist_skip: "sublist x ys \<Longrightarrow> sublist x (p @ ys)"
  unfolding sublist_def by (metis append.assoc)

lemma prompt_interpolates:
  "sublist (ticker input) (prompt input)"
  "sublist (price input) (prompt input)"
  "sublist (RiskProfile_string (riskProfile input)) (prompt input)"
  "sublist (capital input) (prompt input)"
  "sublist (CapitalTier_string (capitalTier input)) (prompt input)"
  "sublist (roe (fundamentals input)) (prompt input)"
  "sublist (der (fundamentals input)) (prompt input)"
  "sublist (pbv (fundamentals input)) (prompt input)"
  "sublist (per (fundamentals input)) (prompt input)"
  "sublist (cfo (fundamentals input)) (prompt input)"
  "sublist (fcf (fundamentals input)) (prompt input)"
  "sublist (decimal (brokerSummaryVal (bandarmology input))) (prompt input)"
  "sublist (topBrokers (bandarmology input)) (prompt input)"
  "sublist (bandarAvgPrice (bandarmology input)) (prompt input)"
  "sublist (orderBookBid (bandarmology input)) (prompt input)"
  "sublist (orderBookAsk (bandarmology input)) (prompt input)"
  "sublist (tradeBookAsk (bandarmology input)) (prompt input)"
  "sublist (tradeBookBid (bandarmology input)) (prompt input)"
  "sublist (rawIntelligenceData input) (prompt input)"
  unfolding prompt_def
  by (rule sublist_append_rightI | rule sublist_skip)+


section \<open>The case archive: removal\<close>

lemma identity_key_has_id: "has_id c \<Longrightarrow> identity_key c = map_of c ''id''"
  by (simp add: identity_key_def js_or_def has_id_def)

lemma vaultCases_removeFromVault:
  "vaultCases (removeFromVault setItem k st) =
     filter (\<lambda>c. map_of c ''id'' \<noteq> Some (JStr k)) (vaultCases st)"
  by (simp add: removeFromVault_def Let_def strict_neq_str_def)

text \<open>
  C10, as stated, fails: an entry without an id has its ticker as identity key, and
  removing by that key leaves it in the archive.
\<close>

theorem removeFromVault_keeps_entry_without_id:
  "identity_key legacy_entry = Some (JStr ''BBCA'') \<and>
   vaultCases (removeFromVault storage_accepts ''BBCA'' (vault_of [legacy_entry])) = [legacy_entry]"
  by (simp add: identity_key_def js_or_def truthy_def vaultCases_removeFromVault vault_of_def legacy_entry_def)

text \<open>
  C10, amended: \<open>removeFromVault\<close> removes the entries whose \<open>id\<close> is the string
  passed and no other; it never looks at the ticker. The persisted mirror becomes the
  new list when the write to the storage succeeds and keeps its content when the write
  fails. On an archive whose entries all have an id, the identity key is the id: the
  entries removed are then exactly those whose identity key is the argument, and
  nothing changes when no entry has that key.
\<close>

theorem removeFromVault_removes_by_id:
  "vaultCases (removeFromVault setItem k st) =
     filter (\<lambda>c. map_of c ''id'' \<noteq> Some (JStr k)) (vaultCases st) \<and>
   persisted (removeFromVault setItem k st) =
     (if setItem (vaultCases (removeFromVault setItem k st))
      then Some (vaultCases (removeFromVault setItem k st)) else persisted st) \<and>
   ((\<forall>c \<in> set (vaultCases st). has_id c) \<longrightarrow>
      vaultCases (removeFromVault setItem k st) =
        filter (\<lambda>c. identity_key c \<noteq> Some (JStr k)) (vaultCases st) \<and>
      (Some (JStr k) \<notin> identity_key ` set (vaultCases st) \<longrightarrow>
         vaultCases (removeFromVault setItem k st) = vaultCases st))"
proof -
  have 1: "vaultCases (removeFromVault setItem k st) =
     filter (\<lambda>c. map_of c ''id'' \<noteq> Some (JStr k)) (vaultCases st)"
    by (rule vaultCases_removeFromVault)
  have 2: "persisted (removeFromVault setItem k st) =
     (if setItem (vaultCases (removeFromVault setItem k st))
      then Some (vaultCases (removeFromVault setItem k st)) else persisted st)"
    by (simp add: removeFromVault_def Let_def)
  have 3: "vaultCases (removeFromVault setItem k st) =
        filter (\<lambda>c. identity_key c \<noteq> Some (JStr k)) (vaultCases st)"
    if h: "\<forall>c \<in> set (vaultCases st). has_id c"
    unfolding 1 using h by (intro filter_cong refl) (simp add: identity_key_has_id)
  have 4: "vaultCases (removeFromVault setItem k st) = vaultCases st"
    if h: "\<forall>c \<in> set (vaultCases st). has_id c"
      and n: "Some (JStr k) \<notin> identity_key ` set (vaultCases st)"
    unfolding 3 [OF h] using n by (intro filter_True) force
  from 1 2 3 4 show ?thesis by blast
qed

text \<open>
  Removing \<open>a\<close> from the archive that holds the entry with id \<open>a\<close> and the entry
  without an id leaves the latter; from the archive that holds only the former it leaves
  nothing, and the mirror is empty too when the storage takes the write, and still holds
  the entry when the storage is full; removing \<open>b\<close> changes nothing.
\<close>

theorem removeFromVault_removes_by_id_witness:
  "vaultCases (removeFromVault storage_accepts ''a'' (vault_of [keyed_entry, legacy_entry])) = [legacy_entry] \<and>
   vaultCases (removeFromVault storage_accepts ''a'' (vault_of [keyed_entry])) = [] \<and>
   persisted (removeFromVault storage_accepts ''a'' (vault_of [keyed_entry])) = Some [] \<and>
   vaultCases (removeFromVault storage_full ''a'' (vault_of [keyed_entry])) = [] \<and>
   persisted (removeFromVault storage_full ''a'' (vault_of [keyed_entry])) = Some [keyed_entry] \<and>
   vaultCases (removeFromVault storage_accepts ''b'' (vault_of [keyed_entry])) = [keyed_entry]"
proof -
  have h: "\<forall>c \<in> set (vaultCases (vault_of [keyed_entry])). has_id c"
    by (simp add: vault_of_def keyed_entry_def has_id_def truthy_def)
  have k: "identity_key keyed_entry = Some (JStr ''a'')"
    by (simp add: identity_key_def js_or_def truthy_def keyed_entry_def)
  have n: "Some (JStr ''b'') \<notin> identity_key ` set (vaultCases (vault_of [keyed_entry]))"
    by (simp add: vault_of_def k)
  note r1 = removeFromVault_removes_by_id [of storage_accepts "''a''" "vault_of [keyed_entry, legacy_entry]"]
  note r2 = removeFromVault_removes_by_id [of storage_accepts "''a''" "vault_of [keyed_entry]"]
  note r3 = removeFromVault_removes_by_id [of storage_full "''a''" "vault_of [keyed_entry]"]
  note r4 = removeFromVault_removes_by_id [of storage_accepts "''b''" "vault_of [keyed_entry]"]
  from r1
  have 1: "vaultCases (removeFromVault storage_accepts ''a'' (vault_of [keyed_entry, legacy_entry])) = [legacy_entry]"
    by (simp add: vault_of_def keyed_entry_def legacy_entry_def)
  from r2 h
  have "vaultCases (removeFromVault storage_accepts ''a'' (vault_of [keyed_entry])) =
          filter (\<lambda>c. identity_key c \<noteq> Some (JStr ''a'')) (vaultCases (vault_of [keyed_entry]))"
    by blast
  then have 2: "vaultCases (removeFromVault storage_accepts ''a'' (vault_of [keyed_entry])) = []"
    by (simp add: vault_of_def k)
  from r2 have "persisted (removeFromVault storage_accepts ''a'' (vault_of [keyed_entry])) =
     (if storage_accepts (vaultCases (removeFromVault storage_accepts ''a'' (vault_of [keyed_entry])))
      then Some (vaultCases (removeFromVault storage_accepts ''a'' (vault_of [keyed_entry])))
      else persisted (vault_of [keyed_entry]))"
    by blast
  then have 3: "persisted (removeFromVault storage_accepts ''a'' (vault_of [keyed_entry])) = Some []"
    unfolding 2 by (simp add: storage_accepts_def)
  from r3 h
  have "vaultCases (removeFromVault storage_full ''a'' (vault_of [keyed_entry])) =
          filter (\<lambda>c. identity_key c \<noteq> Some (JStr ''a'')) (vaultCases (vault_of [keyed_entry]))"
    by blast
  then have 4: "vaultCases (removeFromVault storage_full ''a'' (vault_of [keyed_entry])) = []"
    by (simp add: vault_of_def k)
  from r3 have "persisted (removeFromVault storage_full ''a'' (vault_of [keyed_entry])) =
     (if storage_full (vaultCases (removeFromVault storage_full ''a'' (vault_of [keyed_entry])))
      then Some (vaultCases (removeFromVault storage_full ''a'' (vault_of [keyed_entry])))
      else persisted (vault_of [keyed_entry]))"
    by blast
  then have 5: "persisted (removeFromVault storage_full ''a'' (vault_of [keyed_entry])) = Some [keyed_entry]"
    unfolding 4 by (simp add: storage_full_def vault_of_def)
  from r4 h n
  have "vaultCases (removeFromVault storage_accepts ''b'' (vault_of [keyed_entry])) =
          vaultCases (vault_of [keyed_entry])"
    by blast
  then have 6: "vaultCases (removeFromVault storage_accepts ''b'' (vault_of [keyed_entry])) = [keyed_entry]"
    by (simp add: vault_of_def)
  from 1 2 3 4 5 6 show ?thesis by blast
qed


section \<open>The case archive: import and identity keys\<close>

lemma getProp_id: "getProp c ''id'' = (if c = JNull then Inl TypeError else Inr (own_id c))"
  by (cases c) (simp_all add: getProp_def own_id_def)

lemma with_id_null: "with_id uuids n JNull = Inl TypeError"
  by (simp add: with_id_def getProp_id)

lemma with_id_value:
  assumes "c \<noteq> JNull"
  shows "with_id uuids n c =
     (if truthy (own_id c) then Inr (AList.update ''id'' (the (own_id c)) (spread c), n)
      else Inr (AList.update ''id'' (JStr (uuids n)) (spread c), Suc n))"
  using assms by (simp add: with_id_def getProp_id)

lemma truthy_Some: "truthy v \<Longrightarrow> Some (the v) = v"
  by (cases v) (simp_all add: truthy_def)

lemma with_id_ok:
  assumes "c \<noteq> JNull"
  shows "\<exists>e n'. with_id uuids n c = Inr (e, n') \<and> n \<le> n' \<and> id_kept_or_generated uuids n c e"
proof (cases "truthy (own_id c)")
  case True
  then show ?thesis
    using assms by (simp add: with_id_value id_kept_or_generated_def update_conv truthy_Some)
next
  case False
  then show ?thesis
    using assms by (auto simp add: with_id_value id_kept_or_generated_def update_conv)
qed

lemma id_kept_or_generated_mono:
  "id_kept_or_generated uuids n' c e \<Longrightarrow> n \<le> n' \<Longrightarrow> id_kept_or_generated uuids n c e"
  unfolding id_kept_or_generated_def by (metis (no_types, lifting) order_trans)

lemma import_entries_null:
  "JNull \<in> set cs \<Longrightarrow> import_entries uuids n cs = Inl TypeError"
proof (induction cs arbitrary: n)
  case Nil
  then show ?case by simp
next
  case (Cons c cs)
  show ?case
  proof (cases "c = JNull")
    case True
    then show ?thesis by (simp add: with_id_null)
  next
    case False
    with Cons.prems have m: "JNull \<in> set cs" by simp
    from with_id_ok [OF False] obtain e n' where w: "with_id uuids n c = Inr (e, n')"
      by blast
    show ?thesis by (simp add: w Cons.IH [OF m])
  qed
qed

lemma import_entries_ok:
  "JNull \<notin> set cs \<Longrightarrow>
   \<exists>new n'. import_entries uuids n cs = Inr (new, n') \<and> n \<le> n' \<and>
     list_all2 (id_kept_or_generated uuids n) cs new"
proof (induction cs arbitrary: n)
  case Nil
  then show ?case by simp
next
  case (Cons c cs)
  then have c: "c \<noteq> JNull" and m: "JNull \<notin> set cs" by auto
  from with_id_ok [OF c] obtain e n1 where
    w: "with_id uuids n c = Inr (e, n1)" and l: "n \<le> n1" and k: "id_kept_or_generated uuids n c e"
    by blast
  from Cons.IH [OF m] obtain new n2 where
    i: "import_entries uuids n1 cs = Inr (new, n2)" and l2: "n1 \<le> n2"
    and a: "list_all2 (id_kept_or_generated uuids n1) cs new"
    by blast
  have "list_all2 (id_kept_or_generated uuids n) cs new"
    using a l by (auto elim!: list_all2_mono intro: id_kept_or_generated_mono)
  with w i l l2 k show ?case by simp
qed




lemma import_onload_unparsable:
  "JSON_parse body = None \<Longrightarrow>
   import_onload setItem JSON_parse uuids body st =
     st\<lparr>alerts := alerts st @ [''Invalid JSON file.'']\<rparr>"
  by (simp add: import_onload_def)

lemma import_onload_null_entry:
  "JSON_parse body = Some (JArr cs) \<Longrightarrow> JNull \<in> set cs \<Longrightarrow>
   import_onload setItem JSON_parse uuids body st =
     st\<lparr>alerts := alerts st @ [''Invalid JSON file.'']\<rparr>"
  by (simp add: import_onload_def import_entries_null)

lemma import_onload_not_array:
  "JSON_parse body = Some v \<Longrightarrow> \<forall>cs. v \<noteq> JArr cs \<Longrightarrow>
   import_onload setItem JSON_parse uuids body st = st"
  by (cases v) (simp_all add: import_onload_def)

lemma import_onload_array:
  assumes "JSON_parse body = Some (JArr cs)"
    and "import_entries uuids (drawn st) cs = Inr (new, n)"
  shows "vaultCases (import_onload setItem JSON_parse uuids body st) = vaultCases st @ new"
    and "persisted (import_onload setItem JSON_parse uuids body st) =
           (if setItem (vaultCases st @ new) then Some (vaultCases st @ new) else persisted st)"
    and "alerts (import_onload setItem JSON_parse uuids body st) =
           alerts st @
             [if setItem (vaultCases st @ new)
              then ''Successfully imported '' @ decimal (length cs) @ '' cases.''
              else ''Invalid JSON file.'']"
  using assms by (simp_all add: import_onload_def Let_def)




lemma parses_to_backup: "parses_to v ''backup'' = Some v"
  by (simp add: parses_to_def)

lemma vault_of_sel:
  "vaultCases (vault_of cases) = cases" "persisted (vault_of cases) = Some cases"
  "alerts (vault_of cases) = []" "drawn (vault_of cases) = 0"
  by (simp_all add: vault_of_def)



lemma identity_key_updated_id:
  "s \<noteq> [] \<Longrightarrow>
   identity_key (AList.update ''timestamp'' t (AList.update ''id'' (JStr s) r)) = Some (JStr s)"
  by (simp add: identity_key_def js_or_def update_conv truthy_def)

lemma keys_saveToVault:
  "uuids (drawn st) \<noteq> [] \<Longrightarrow>
   map identity_key (vaultCases (saveToVault setItem uuids now r st)) =
     Some (JStr (uuids (drawn st))) # map identity_key (vaultCases st)"
  by (simp add: saveToVault_def Let_def identity_key_updated_id)

text \<open>
  The add half of C6 holds: an add re-keys the new entry with the next generated
  identifier, so the identity keys stay distinct when they were distinct and the
  identifier is new to the archive.
\<close>

lemma saveToVault_keys_distinct:
  assumes "distinct (map identity_key (vaultCases st))" and "uuids (drawn st) \<noteq> []"
    and "Some (JStr (uuids (drawn st))) \<notin> set (map identity_key (vaultCases st))"
  shows "distinct (map identity_key (vaultCases (saveToVault setItem uuids now r st)))"
  using assms by (simp add: keys_saveToVault)

lemma import_entries_duplicate:
  "import_entries example_uuids 0 [JObj keyed_entry] = Inr ([keyed_entry], 0)"
  by (simp add: with_id_def getProp_def truthy_def spread_def keyed_entry_def)

lemma identity_key_keyed_entry: "identity_key keyed_entry = Some (JStr ''a'')"
  by (simp add: identity_key_def js_or_def truthy_def keyed_entry_def)

text \<open>
  C6 fails on the code for import: the identity keys of the archive that holds the entry
  with id \<open>a\<close> are distinct, and after importing a snapshot that holds this entry (the
  archive's own export, for one) the archive has two entries with the identity key
  \<open>a\<close>. The duplicate is neither rejected nor re-keyed.
\<close>

theorem import_keeps_duplicate_id:
  "distinct (map identity_key (vaultCases (vault_of [keyed_entry]))) \<and>
   map identity_key
     (vaultCases (handleImportVault storage_accepts (parses_to (JArr [JObj keyed_entry]))
        example_uuids (Some ''backup'') (vault_of [keyed_entry]))) =
     [Some (JStr ''a''), Some (JStr ''a'')] \<and>
   \<not> distinct (map identity_key
     (vaultCases (handleImportVault storage_accepts (parses_to (JArr [JObj keyed_entry]))
        example_uuids (Some ''backup'') (vault_of [keyed_entry]))))"
proof -
  have p: "parses_to (JArr [JObj keyed_entry]) ''backup'' = Some (JArr [JObj keyed_entry])"
    by (rule parses_to_backup)
  have i: "import_entries example_uuids (drawn (vault_of [keyed_entry])) [JObj keyed_entry] =
             Inr ([keyed_entry], 0)"
    unfolding vault_of_sel by (rule import_entries_duplicate)
  note a = import_onload_array(1)
             [where setItem = storage_accepts and body = "''backup''"
                and JSON_parse = "parses_to (JArr [JObj keyed_entry])"
                and cs = "[JObj keyed_entry]" and uuids = example_uuids
                and st = "vault_of [keyed_entry]" and new = "[keyed_entry]" and n = 0, OF p i]
  have "vaultCases (handleImportVault storage_accepts (parses_to (JArr [JObj keyed_entry]))
          example_uuids (Some ''backup'') (vault_of [keyed_entry])) = [keyed_entry, keyed_entry]"
    using a by (simp add: handleImportVault_def vault_of_sel)
  then show ?thesis
    by (simp add: vault_of_sel identity_key_keyed_entry)
qed

text \<open>
  Adding, importing and removing keep every entry of the archive with an id, provided
  the generated identifiers are non-empty strings (a UUID has 36 characters).
\<close>

lemma id_kept_or_generated_has_id:
  assumes "id_kept_or_generated uuids n c e" and "\<forall>j. uuids j \<noteq> []"
  shows "has_id e"
proof (cases "truthy (own_id c)")
  case True
  with assms(1) show ?thesis by (simp add: id_kept_or_generated_def has_id_def)
next
  case False
  with assms(1) obtain j where "map_of e ''id'' = Some (JStr (uuids j))"
    by (auto simp add: id_kept_or_generated_def)
  with assms(2) show ?thesis by (simp add: has_id_def truthy_def)
qed

lemma saveToVault_has_id:
  assumes "uuids (drawn st) \<noteq> []" and "\<forall>c \<in> set (vaultCases st). has_id c"
  shows "\<forall>c \<in> set (vaultCases (saveToVault setItem uuids now r st)). has_id c"
  using assms by (simp add: saveToVault_def Let_def has_id_def update_conv truthy_def)

lemma removeFromVault_has_id:
  assumes "\<forall>c \<in> set (vaultCases st). has_id c"
  shows "\<forall>c \<in> set (vaultCases (removeFromVault setItem k st)). has_id c"
  using assms by (simp add: vaultCases_removeFromVault)

lemma import_onload_has_id:
  assumes u: "\<forall>j. uuids j \<noteq> []" and h: "\<forall>c \<in> set (vaultCases st). has_id c"
  shows "\<forall>c \<in> set (vaultCases (import_onload setItem JSON_parse uuids body st)). has_id c"
proof (cases "JSON_parse body")
  case None
  then show ?thesis using h by (simp add: import_onload_unparsable)
next
  case (Some v)
  show ?thesis
  proof (cases "\<exists>cs. v = JArr cs")
    case False
    with Some show ?thesis using h by (simp add: import_onload_not_array)
  next
    case True
    then obtain cs where v: "v = JArr cs" by blast
    show ?thesis
    proof (cases "JNull \<in> set cs")
      case True
      with Some v show ?thesis using h by (simp add: import_onload_null_entry)
    next
      case False
      from import_entries_ok [OF False, of uuids "drawn st"] obtain new n' where
        i: "import_entries uuids (drawn st) cs = Inr (new, n')"
        and l: "list_all2 (id_kept_or_generated uuids (drawn st)) cs new"
        by blast
      have p: "JSON_parse body = Some (JArr cs)"
        using Some v by simp
      note e = import_onload_array(1)
                 [where setItem = setItem and body = body and JSON_parse = JSON_parse
                    and cs = cs and uuids = uuids and st = st and new = new and n = n', OF p i]
      have "\<forall>e \<in> set new. has_id e"
      proof
        fix e assume "e \<in> set new"
        then obtain i where "i < length new" "e = new ! i"
          by (metis in_set_conv_nth)
        with l have "id_kept_or_generated uuids (drawn st) (cs ! i) e"
          by (simp add: list_all2_conv_all_nth)
        then show "has_id e" using u by (rule id_kept_or_generated_has_id)
      qed
      with h show ?thesis unfolding e by auto
    qed
  qed
qed

end
